theory Spec2Isabelle
  imports Complex_Main
begin

section \<open>Data model of the simulation driver\<close>

text \<open>
  The driver \<^verbatim>\<open>simulation_run.py\<close> holds two functions, \<^verbatim>\<open>run_scenario\<close> and
  \<^verbatim>\<open>main\<close>. Everything they call lives in other modules (\<^verbatim>\<open>contributivity_measures\<close>,
  \<^verbatim>\<open>contributivity\<close>, \<^verbatim>\<open>fl_training\<close>, \<^verbatim>\<open>scenario\<close>, \<^verbatim>\<open>utils\<close>); those calls are
  fields of the record \<open>externals\<close> below, each returning either an exception
  (\<open>Inl\<close>) or its value (\<open>Inr\<close>). A Python float is modelled as the real number it
  stands for.
\<close>

datatype error =
    TrainingFailure "nat list"
  | DimensionMismatch
  | UnboundLocalError
  | KeyError string
  | InfeasibleExactComputation
  | OtherError string

type_synonym dataset = "nat list"

text \<open>
  Modelled from the spec: the class \<^verbatim>\<open>contributivity.Contributivity\<close> (not part of the
  driver). The four fields are the four arguments of the constructor call in
  \<^verbatim>\<open>run_scenario\<close>: method name, score vector, variance vector, elapsed time.
\<close>

record contrib =
  name :: string
  contributivity_scores :: "real list"
  scores_var :: "real list"
  computation_time :: real

text \<open>The attributes of a scenario object that the driver reads or writes.\<close>

record scenario =
  methods :: "string list"
  node_list :: "nat list"
  epoch_count :: nat
  x_val :: dataset
  y_val :: dataset
  x_test :: dataset
  y_test :: dataset
  aggregation_weighting :: string
  single_partner_test_mode :: string
  federated_test_score :: real
  contributivity_list :: "contrib list"

text \<open>The dictionary returned by \<^verbatim>\<open>truncated_MC\<close>; the driver reads two of its keys.\<close>

record tmcs_results =
  sv :: "real list"
  std_sv :: "real list"

text \<open>
  \<^verbatim>\<open>score_dict\<close>: a Python dict in insertion order, from the name of a score vector to the
  pair (scores, variances).
\<close>

type_synonym score_dict = "(string \<times> real list \<times> real list) list"

datatype cell = Num int | Flt real | Txt string

record dataframe =
  columns :: "string list"
  rows :: "cell list list"

datatype csv_line = Header "string list" | Row "cell list"

type_synonym csv_file = "csv_line list"

type_synonym scenario_params = "string \<rightharpoonup> string"

record config =
  experiment_path :: string
  scenario_params_list :: "scenario_params list"
  n_repeats :: int

text \<open>
  The calls the driver makes into the other modules. \<open>timer\<close> is the clock: \<open>timer ext k\<close>
  is what the \<open>k\<close>-th call of \<^verbatim>\<open>timer()\<close> returns; the driver threads the count of
  clock readings.
\<close>

record externals =
  split_data :: "scenario \<Rightarrow> error + scenario"
  plot_data_distribution :: "scenario \<Rightarrow> error + unit"
  preprocess_scenarios_data :: "scenario \<Rightarrow> error + scenario"
  compute_test_score_with_scenario :: "scenario \<Rightarrow> bool \<Rightarrow> error + real"
  compute_SV :: "nat list \<Rightarrow> nat \<Rightarrow> dataset \<Rightarrow> dataset \<Rightarrow> dataset \<Rightarrow> dataset \<Rightarrow> string
                 \<Rightarrow> error + (real list \<times> real list)"
  compute_independent_scores :: "nat list \<Rightarrow> nat \<Rightarrow> real \<Rightarrow> string \<Rightarrow> dataset \<Rightarrow> dataset
                 \<Rightarrow> error + (real list \<times> real list)"
  truncated_MC :: "scenario \<Rightarrow> real \<Rightarrow> real \<Rightarrow> real \<Rightarrow> error + tmcs_results"
  to_file :: "scenario \<Rightarrow> error + unit"
  timer :: "nat \<Rightarrow> real"
  Scenario :: "scenario_params \<Rightarrow> string \<Rightarrow> error + scenario"
  to_dataframe :: "scenario \<Rightarrow> error + dataframe"

section \<open>The record constructor and the scenario's result collection\<close>

text \<open>
  Modelled from the spec: the constructor of \<^verbatim>\<open>contributivity.Contributivity\<close>, which
  "validates that score/variance vector lengths match node count" and otherwise "fails with
  a DimensionMismatch error". The call in \<^verbatim>\<open>run_scenario\<close> passes the four fields only; the
  node count the validation compares with is the first argument here.
\<close>

definition Contributivity ::
  "nat \<Rightarrow> string \<Rightarrow> real list \<Rightarrow> real list \<Rightarrow> real \<Rightarrow> error + contrib" where
  "Contributivity n nm scores vars t =
     (if length scores = n \<and> length vars = n
      then Inr \<lparr>name = nm, contributivity_scores = scores, scores_var = vars,
                computation_time = t\<rparr>
      else Inl DimensionMismatch)"

text \<open>
  Modelled from the spec: \<^verbatim>\<open>Scenario.append_contributivity\<close>, by which a record is
  "appended to the scenario's result collection".
\<close>

definition append_contributivity :: "scenario \<Rightarrow> contrib \<Rightarrow> scenario" where
  "append_contributivity sc c = sc\<lparr>contributivity_list := contributivity_list sc @ [c]\<rparr>"

section \<open>\<^verbatim>\<open>run_scenario\<close>\<close>

text \<open>\<^verbatim>\<open>np.round\<close> on a float: to the nearest integer, a tie to the even neighbour.\<close>

definition np_round :: "real \<Rightarrow> real" where
  "np_round x =
     (let f = \<lfloor>x\<rfloor>; d = x - of_int f
      in if d < 1 / 2 then of_int f
         else if 1 / 2 < d then of_int (f + 1)
         else if even f then of_int f else of_int (f + 1))"

text \<open>
  Python's \<^verbatim>\<open>end - start\<close> on two floats (IEEE 754 binary64): the exact difference rounded to
  53 significant bits, a tie to the even neighbour. \<open>double_round\<close> is that rounding: the
  unit in the last place of \<open>x\<close> is \<open>2\<close> to the power \<open>\<lfloor>log\<^sub>2 |x|\<rfloor> - 52\<close>, and not below
  \<open>2\<close> to the power \<open>-1074\<close> (the subnormal range). Overflow to infinity is left aside: clock
  readings are far from it.
\<close>

definition double_round :: "real \<Rightarrow> real" where
  "double_round x =
     (if x = 0 then 0
      else (let ulp = 2 powr of_int (max (\<lfloor>log 2 \<bar>x\<bar>\<rfloor> - 52) (- 1074))
            in np_round (x / ulp) * ulp))"

definition float_sub :: "real \<Rightarrow> real \<Rightarrow> real" where
  "float_sub a b = double_round (a - b)"

definition float_add :: "real \<Rightarrow> real \<Rightarrow> real" where
  "float_add a b = double_round (a + b)"

definition float_mul :: "real \<Rightarrow> real \<Rightarrow> real" where
  "float_mul a b = double_round (a * b)"

definition float_div :: "real \<Rightarrow> real \<Rightarrow> real" where
  "float_div a b = double_round (a / b)"

text \<open>Python's \<^verbatim>\<open>sum\<close> of a list of floats, left to right; adding the first float to the
  integer 0 it starts from is exact.\<close>

fun float_sum :: "real list \<Rightarrow> real" where
  "float_sum [] = 0"
| "float_sum (x # xs) = foldl float_add x xs"

text \<open>
  The \<^verbatim>\<open>if / elif / elif\<close> chain of the loop body (lines 107 to 138). The chain has no
  \<^verbatim>\<open>else\<close>: for any other method name \<^verbatim>\<open>score_dict\<close> keeps the value the previous
  iteration gave it, and is unbound (\<open>None\<close>) when there was none.
\<close>

definition method_scores ::
  "externals \<Rightarrow> scenario \<Rightarrow> string \<Rightarrow> score_dict option \<Rightarrow> error + score_dict option" where
  "method_scores ext sc method prev =
     (if method = ''Shapley values'' then
        (case compute_SV ext (node_list sc) (epoch_count sc) (x_val sc) (y_val sc)
                (x_test sc) (y_test sc) (aggregation_weighting sc) of
           Inl e \<Rightarrow> Inl e
         | Inr (scores, vars) \<Rightarrow> Inr (Some [(''Shapley values'', scores, vars)]))
      else if method = ''Independant scores'' then
        (case compute_independent_scores ext (node_list sc) (epoch_count sc)
                (federated_test_score sc) (single_partner_test_mode sc)
                (x_test sc) (y_test sc) of
           Inl e \<Rightarrow> Inl e
         | Inr (scores0, scores1) \<Rightarrow>
             Inr (Some [(''Independant scores raw'', scores0, replicate (length scores0) 0),
                        (''Independant scores additive'', scores1,
                           replicate (length scores1) 0)]))
      else if method = ''TMCS values'' then
        (case truncated_MC ext sc (1 / 100) (9 / 10) (5 / 100) of
           Inl e \<Rightarrow> Inl e
         | Inr res \<Rightarrow> Inr (Some [(''TMCS values'', sv res, std_sv res)]))
      else Inr prev)"

text \<open>
  The inner loop (lines 141 to 149): one record per entry of \<^verbatim>\<open>score_dict\<close>, every one
  built with the same rounded duration, each appended to the scenario.
\<close>

fun record_scores :: "real \<Rightarrow> scenario \<Rightarrow> score_dict \<Rightarrow> error + scenario" where
  "record_scores t sc [] = Inr sc"
| "record_scores t sc ((score_method, score0, score1) # rest) =
     (case Contributivity (length (node_list sc)) score_method score0 score1 t of
        Inl e \<Rightarrow> Inl e
      | Inr contrib \<Rightarrow> record_scores t (append_contributivity sc contrib) rest)"

text \<open>
  One iteration of the loop over the methods (lines 105 to 149). \<open>k\<close> counts the clock
  readings made so far, \<open>sd\<close> is the binding of \<^verbatim>\<open>score_dict\<close> on entry. The result is the
  binding of \<^verbatim>\<open>score_dict\<close> on exit and the scenario with the records appended.
\<close>

definition method_step ::
  "externals \<Rightarrow> nat \<Rightarrow> score_dict option \<Rightarrow> scenario \<Rightarrow> string
     \<Rightarrow> error + score_dict option \<times> scenario" where
  "method_step ext k sd sc method =
     (let start = timer ext k in
      case method_scores ext sc method sd of
        Inl e \<Rightarrow> Inl e
      | Inr sd' \<Rightarrow>
          (let stop = timer ext (k + 1) in
           case sd' of
             None \<Rightarrow> Inl UnboundLocalError
           | Some d \<Rightarrow>
               (case record_scores (np_round (float_sub stop start)) sc d of
                  Inl e \<Rightarrow> Inl e
                | Inr sc' \<Rightarrow> Inr (sd', sc'))))"

text \<open>
  The loop over the methods (line 104). An exception of an external leaves the loop at
  once: there is no handler in the driver.
\<close>

fun run_methods ::
  "externals \<Rightarrow> nat \<Rightarrow> score_dict option \<Rightarrow> scenario \<Rightarrow> string list \<Rightarrow> error + scenario \<times> nat"
  where
  "run_methods ext k sd sc [] = Inr (sc, k)"
| "run_methods ext k sd sc (method # ms) =
     (case method_step ext k sd sc method of
        Inl e \<Rightarrow> Inl e
      | Inr (sd', sc') \<Rightarrow> run_methods ext (k + 2) sd' sc' ms)"

definition run_scenario :: "externals \<Rightarrow> nat \<Rightarrow> scenario \<Rightarrow> error + scenario \<times> nat" where
  "run_scenario ext k current_scenario =
     (case split_data ext current_scenario of
        Inl e \<Rightarrow> Inl e
      | Inr sc1 \<Rightarrow>
     (case plot_data_distribution ext sc1 of
        Inl e \<Rightarrow> Inl e
      | Inr _ \<Rightarrow>
     (case preprocess_scenarios_data ext sc1 of
        Inl e \<Rightarrow> Inl e
      | Inr sc2 \<Rightarrow>
     (case compute_test_score_with_scenario ext sc2 True of
        Inl e \<Rightarrow> Inl e
      | Inr score \<Rightarrow>
     (let sc3 = sc2\<lparr>federated_test_score := score\<rparr> in
      case run_methods ext k None sc3 (methods sc3) of
        Inl e \<Rightarrow> Inl e
      | Inr (sc4, k') \<Rightarrow>
     (case to_file ext sc4 of
        Inl e \<Rightarrow> Inl e
      | Inr _ \<Rightarrow> Inr (sc4, k')))))))"

section \<open>\<^verbatim>\<open>main\<close>\<close>

text \<open>\<^verbatim>\<open>df[col] = value\<close>: the column is overwritten when present, added last otherwise.\<close>

fun set_at :: "cell list \<Rightarrow> nat \<Rightarrow> cell \<Rightarrow> cell list" where
  "set_at r i v = (if i < length r then r[i := v] else r @ [v])"

fun index_of :: "string list \<Rightarrow> string \<Rightarrow> nat" where
  "index_of [] c = 0"
| "index_of (x # xs) c = (if x = c then 0 else Suc (index_of xs c))"

definition assign_column :: "dataframe \<Rightarrow> string \<Rightarrow> cell \<Rightarrow> dataframe" where
  "assign_column df c v =
     (if c \<in> set (columns df)
      then df\<lparr>rows := map (\<lambda>r. set_at r (index_of (columns df) c) v) (rows df)\<rparr>
      else df\<lparr>columns := columns df @ [c], rows := map (\<lambda>r. r @ [v]) (rows df)\<rparr>)"

text \<open>
  \<^verbatim>\<open>df.to_csv(f, header=h, index=False)\<close> on a file opened for appending: the line of
  column names when \<open>h\<close>, then one line per row.
\<close>

definition to_csv :: "csv_file \<Rightarrow> bool \<Rightarrow> dataframe \<Rightarrow> csv_file" where
  "to_csv f header df = f @ (if header then [Header (columns df)] else []) @ map Row (rows df)"

text \<open>
  Lines 82 and 83: the file is opened in mode \<^verbatim>\<open>"a"\<close>, so \<^verbatim>\<open>f.tell()\<close> is the size of the
  file, and \<^verbatim>\<open>f.tell() == 0\<close> says that the file is empty.
\<close>

definition write_results :: "csv_file \<Rightarrow> dataframe \<Rightarrow> csv_file" where
  "write_results f df_results = to_csv f (f = []) df_results"

text \<open>
  The loop over the scenarios of one repeat \<open>i\<close> (lines 65 to 84). The result is the
  exception that ended the loop, if any, the file as it is then, and the count of clock
  readings up to the last scenario that completed. \<^verbatim>\<open>run_scenario\<close> rebinds its own parameter to the value of
  \<^verbatim>\<open>preprocess_scenarios_data\<close>; that function is taken to update and return the object it
  is given, so that \<^verbatim>\<open>main\<close> sees the records \<^verbatim>\<open>run_scenario\<close> appended.
\<close>

fun scenario_loop ::
  "externals \<Rightarrow> string \<Rightarrow> nat \<Rightarrow> nat \<Rightarrow> csv_file \<Rightarrow> (nat \<times> scenario_params) list
     \<Rightarrow> error option \<times> csv_file \<times> nat" where
  "scenario_loop ext path i k f [] = (None, f, k)"
| "scenario_loop ext path i k f ((scenario_id, scenario_params) # rest) =
     (case scenario_params ''amounts_per_node'' of
        None \<Rightarrow> (Some (KeyError ''amounts_per_node''), f, k)
      | Some _ \<Rightarrow>
     (case Scenario ext scenario_params path of
        Inl e \<Rightarrow> (Some e, f, k)
      | Inr current_scenario \<Rightarrow>
     (case to_dataframe ext current_scenario of
        Inl e \<Rightarrow> (Some e, f, k)
      | Inr _ \<Rightarrow>
     (case run_scenario ext k current_scenario of
        Inl e \<Rightarrow> (Some e, f, k)
      | Inr (sc, k') \<Rightarrow>
     (case to_dataframe ext sc of
        Inl e \<Rightarrow> (Some e, f, k')
      | Inr df \<Rightarrow>
          (let df_results = assign_column (assign_column df ''random_state'' (Num (int i)))
                              ''scenario_id'' (Num (int scenario_id))
           in scenario_loop ext path i k' (write_results f df_results) rest))))))"

fun repeat_loop ::
  "externals \<Rightarrow> config \<Rightarrow> nat \<Rightarrow> csv_file \<Rightarrow> nat list \<Rightarrow> error option \<times> csv_file \<times> nat" where
  "repeat_loop ext cfg k f [] = (None, f, k)"
| "repeat_loop ext cfg k f (i # is) =
     (case scenario_loop ext (experiment_path cfg) i k f
             (enumerate 0 (scenario_params_list cfg)) of
        (Some e, f', k') \<Rightarrow> (Some e, f', k')
      | (None, f', k') \<Rightarrow> repeat_loop ext cfg k' f' is)"

text \<open>
  \<^verbatim>\<open>main\<close> from line 51 on, given the loaded configuration and the contents of
  \<^verbatim>\<open>results.csv\<close> before the run (empty when the file does not exist yet).
\<close>

definition main :: "externals \<Rightarrow> config \<Rightarrow> csv_file \<Rightarrow> error option \<times> csv_file \<times> nat" where
  "main ext cfg f0 = repeat_loop ext cfg 0 f0 [0..<nat (n_repeats cfg)]"

section \<open>The coalition value oracle\<close>

text \<open>
  Modelled from the spec: the module \<^verbatim>\<open>contributivity_measures\<close> (\<^verbatim>\<open>compute_SV\<close>,
  \<^verbatim>\<open>compute_independent_scores\<close>) is not part of the driver. The two estimators below
  follow sections 4.1 to 4.3 of the specification and carry its component names. A coalition is a set of node indices. One training run per coalition is kept, so
  within one estimator run the score of a coalition is a function of the coalition; the
  run either fails with a \<open>TrainingFailure\<close> or gives a score.
\<close>

record coalition_oracle =
  train_and_score :: "nat set \<Rightarrow> nat \<Rightarrow> error + real"
  baseline :: real

text \<open>
  Modelled from the spec: \<^verbatim>\<open>evaluate(coalition, budget)\<close>; the "empty coalition
  short-circuits to a fixed baseline value without invoking training".
\<close>

definition evaluate :: "coalition_oracle \<Rightarrow> nat set \<Rightarrow> nat \<Rightarrow> error + real" where
  "evaluate orc S budget = (if S = {} then Inr (baseline orc) else train_and_score orc S budget)"

fun first_failure :: "(error + 'a) list \<Rightarrow> error option" where
  "first_failure [] = None"
| "first_failure (Inl e # rs) = Some e"
| "first_failure (Inr x # rs) = first_failure rs"


section \<open>ExactShapleyEstimator\<close>

text \<open>All orderings of a list: the first element put at every position of every ordering
  of the rest.\<close>

fun interleave :: "'a \<Rightarrow> 'a list \<Rightarrow> 'a list list" where
  "interleave x [] = [x] # []"
| "interleave x (y # ys) = (x # y # ys) # map (Cons y) (interleave x ys)"

fun orderings :: "'a list \<Rightarrow> 'a list list" where
  "orderings [] = [] # []"
| "orderings (x # xs) = concat (map (interleave x) (orderings xs))"

text \<open>
  Modelled from the spec: the term of node \<open>i\<close> in one permutation, "value(coalition of
  \<pi> up to and including i) \<midarrow> value(coalition of \<pi> before i)". \<open>S\<close> is the coalition
  walked so far.
\<close>

fun marginal :: "(nat set \<Rightarrow> real) \<Rightarrow> nat set \<Rightarrow> nat list \<Rightarrow> nat \<Rightarrow> real" where
  "marginal v S [] i = 0"
| "marginal v S (x # xs) i =
     (if x = i then v (insert x S) - v S else marginal v (insert x S) xs i)"

text \<open>Modelled from the spec: \<open>\<phi>\<^sub>i = (1/n!) \<Sigma>\<^sub>\<pi> [...]\<close>, the permutation form.\<close>

definition shapley_value :: "(nat set \<Rightarrow> real) \<Rightarrow> nat \<Rightarrow> nat \<Rightarrow> real" where
  "shapley_value v n i =
     sum_list (map (\<lambda>p. marginal v {} p i) (orderings [0..<n])) / fact n"

text \<open>The kept score of a coalition; read only once every coalition has been scored.\<close>

definition coalition_value :: "coalition_oracle \<Rightarrow> nat \<Rightarrow> nat set \<Rightarrow> real" where
  "coalition_value orc budget S = (case evaluate orc S budget of Inr x \<Rightarrow> x | Inl e \<Rightarrow> 0)"

text \<open>
  Modelled from the spec: the estimator refuses above the node-count threshold, scores every
  coalition once (a failure of the oracle aborts it), and returns the exact values with a
  variance vector of zeros.
\<close>

definition ExactShapleyEstimator ::
  "coalition_oracle \<Rightarrow> nat \<Rightarrow> nat \<Rightarrow> nat \<Rightarrow> error + (real list \<times> real list)" where
  "ExactShapleyEstimator orc budget threshold n =
     (if threshold < n then Inl InfeasibleExactComputation
      else case first_failure (map (\<lambda>S. evaluate orc (set S) budget) (subseqs [0..<n])) of
        Some e \<Rightarrow> Inl e
      | None \<Rightarrow> Inr (map (shapley_value (coalition_value orc budget) n) [0..<n],
                     replicate n 0))"

section \<open>IndependentScoreEstimator\<close>


text \<open>
  Modelled from the spec: the same normalisation with every operation carried out on
  floats, as a Python implementation would evaluate it.
\<close>

definition float_additive :: "real list \<Rightarrow> real \<Rightarrow> real list" where
  "float_additive raw federated_score =
     map (\<lambda>x. float_mul (float_div x (float_sum raw)) federated_score) raw"

section \<open>Notions used in the statements\<close>

text \<open>The record the source builds from one entry of \<^verbatim>\<open>score_dict\<close> and a duration.\<close>

definition record_of :: "real \<Rightarrow> string \<times> real list \<times> real list \<Rightarrow> contrib" where
  "record_of t entry =
     \<lparr>name = fst entry, contributivity_scores = fst (snd entry), scores_var = snd (snd entry),
      computation_time = t\<rparr>"

text \<open>
  The keys the source gives \<^verbatim>\<open>score_dict\<close> for each of the three method names it knows
  (lines 118, 129, 130 and 137).
\<close>

definition score_names :: "string \<Rightarrow> string list" where
  "score_names method =
     (if method = ''Shapley values'' then [''Shapley values'']
      else if method = ''Independant scores''
        then [''Independant scores raw'', ''Independant scores additive'']
      else if method = ''TMCS values'' then [''TMCS values'']
      else [])"

definition known_method :: "string \<Rightarrow> bool" where
  "known_method method =
     (method = ''Shapley values'' \<or> method = ''Independant scores'' \<or> method = ''TMCS values'')"



text \<open>The number of header lines of a CSV file.\<close>

fun is_header :: "csv_line \<Rightarrow> bool" where
  "is_header (Header cs) = True"
| "is_header (Row r) = False"

definition headers :: "csv_file \<Rightarrow> nat" where
  "headers f = length (filter is_header f)"

section \<open>Example inputs\<close>

text \<open>
  The stub of the end-to-end scenario of the specification: the score of a coalition is ten
  times its size, the empty coalition scores 0.
\<close>

definition linear_oracle :: coalition_oracle where
  "linear_oracle = \<lparr>train_and_score = (\<lambda>S budget. Inr (10 * real (card S))), baseline = 0\<rparr>"



text \<open>A scenario of two nodes that asks for the three methods, and externals that succeed.\<close>

definition demo_scenario :: scenario where
  "demo_scenario =
     \<lparr>methods = [''Shapley values'', ''Independant scores'', ''TMCS values''],
      node_list = [0, 1], epoch_count = 1, x_val = [], y_val = [], x_test = [], y_test = [],
      aggregation_weighting = ''uniform'', single_partner_test_mode = ''global'',
      federated_test_score = 0, contributivity_list = []\<rparr>"

definition demo_ext :: externals where
  "demo_ext =
     \<lparr>split_data = Inr,
      plot_data_distribution = (\<lambda>sc. Inr ()),
      preprocess_scenarios_data = Inr,
      compute_test_score_with_scenario = (\<lambda>sc is_save_fig. Inr (9 / 10)),
      compute_SV = (\<lambda>nodes epochs xv yv xt yt w. Inr ([1 / 2, 2 / 5], [0, 0])),
      compute_independent_scores =
        (\<lambda>nodes epochs fed mode xt yt. Inr ([3 / 5, 1 / 5], [27 / 40, 9 / 40])),
      truncated_MC =
        (\<lambda>sc sv_accuracy alpha contrib_accuracy.
           Inr \<lparr>sv = [sv_accuracy, alpha], std_sv = [contrib_accuracy, 0]\<rparr>),
      to_file = (\<lambda>sc. Inr ()),
      timer = (\<lambda>k. real k * 5 / 2),
      Scenario = (\<lambda>params path. Inr demo_scenario),
      to_dataframe =
        (\<lambda>sc. Inr \<lparr>columns = [''contributivity_method''],
                      rows = map (\<lambda>c. [Txt (name c)]) (contributivity_list sc)\<rparr>)\<rparr>"


text \<open>
  The floats that Python writes \<^verbatim>\<open>0.2\<close>, \<^verbatim>\<open>0.6\<close>, \<^verbatim>\<open>0.9\<close>, \<^verbatim>\<open>0.1\<close> and \<^verbatim>\<open>2.6\<close>, and a clock
  that reads the last two: their exact difference lies just above 2.5, their float
  difference is 2.5.
\<close>

definition double_0_2 :: real where
  "double_0_2 = 3602879701896397 / 18014398509481984"

definition double_0_6 :: real where
  "double_0_6 = 5404319552844595 / 9007199254740992"

definition double_0_9 :: real where
  "double_0_9 = 8106479329266893 / 9007199254740992"

definition double_0_1 :: real where
  "double_0_1 = 3602879701896397 / 36028797018963968"

definition double_2_6 :: real where
  "double_2_6 = 5854679515581645 / 2251799813685248"

definition tie_ext :: externals where
  "tie_ext = demo_ext\<lparr>timer := (\<lambda>k. if k = 0 then double_0_1 else double_2_6)\<rparr>"

definition demo_params :: scenario_params where
  "demo_params = [''amounts_per_node'' \<mapsto> ''[0.5, 0.5]'']"

definition demo_config :: config where
  "demo_config =
     \<lparr>experiment_path = ''experiments'', scenario_params_list = [demo_params], n_repeats = 2\<rparr>"

section \<open>Properties\<close>

subsection \<open>Orderings and the telescoping sum of a walk\<close>

lemma interleave_length: "length (interleave x ys) = Suc (length ys)"
  by (induction ys) auto

lemma interleave_elem_length: "p \<in> set (interleave x ys) \<Longrightarrow> length p = Suc (length ys)"
  by (induction ys arbitrary: p) auto

lemma interleave_set: "p \<in> set (interleave x ys) \<Longrightarrow> set p = insert x (set ys)"
  by (induction ys arbitrary: p) auto

lemma interleave_distinct:
  "p \<in> set (interleave x ys) \<Longrightarrow> x \<notin> set ys \<Longrightarrow> distinct ys \<Longrightarrow> distinct p"
proof (induction ys arbitrary: p)
  case Nil
  then show ?case by simp
next
  case (Cons y ys)
  from Cons.prems(1) have "p = x # y # ys \<or> (\<exists>q\<in>set (interleave x ys). p = y # q)"
    by (simp add: image_iff)
  then show ?case
  proof
    assume "p = x # y # ys"
    with Cons.prems(2,3) show ?thesis by simp
  next
    assume "\<exists>q\<in>set (interleave x ys). p = y # q"
    then obtain q where q: "q \<in> set (interleave x ys)" "p = y # q" by blast
    have xs: "x \<notin> set ys" "distinct ys" "y \<notin> set ys" "x \<noteq> y"
      using Cons.prems(2,3) by simp_all
    have dq: "distinct q" using Cons.IH[OF q(1) xs(1) xs(2)] .
    have sq: "set q = insert x (set ys)" using q(1) by (rule interleave_set)
    show ?thesis unfolding q(2) using dq sq xs by simp
  qed
qed

lemma orderings_elem_length: "p \<in> set (orderings xs) \<Longrightarrow> length p = length xs"
proof (induction xs arbitrary: p)
  case Nil then show ?case by simp
next
  case (Cons x xs)
  then obtain q where "q \<in> set (orderings xs)" "p \<in> set (interleave x q)" by auto
  then show ?case using Cons.IH[of q] interleave_elem_length[of p x q] by simp
qed

lemma orderings_set: "p \<in> set (orderings xs) \<Longrightarrow> set p = set xs"
  by (induction xs arbitrary: p) (auto dest!: interleave_set)

lemma orderings_distinct: "distinct xs \<Longrightarrow> p \<in> set (orderings xs) \<Longrightarrow> distinct p"
proof (induction xs arbitrary: p)
  case Nil then show ?case by simp
next
  case (Cons x xs)
  then obtain q where q: "q \<in> set (orderings xs)" "p \<in> set (interleave x q)" by auto
  have dq: "distinct q" using Cons.IH[of q] Cons.prems(1) q(1) by simp
  have "set q = set xs" using q(1) by (rule orderings_set)
  then have "x \<notin> set q" using Cons.prems(1) by simp
  then show ?case using interleave_distinct[OF q(2)] dq by blast
qed

lemma sum_list_const:
  "(\<And>x. x \<in> set xs \<Longrightarrow> f x = (c::real)) \<Longrightarrow> sum_list (map f xs) = real (length xs) * c"
  by (induction xs) (auto simp: algebra_simps)

lemma orderings_length: "length (orderings xs) = fact (length xs)"
proof (induction xs)
  case Nil then show ?case by simp
next
  case (Cons x xs)
  have "length (orderings (x # xs)) = sum_list (map (\<lambda>q. length (interleave x q)) (orderings xs))"
    by (simp add: length_concat comp_def)
  also have "\<dots> = sum_list (map (\<lambda>q. Suc (length xs)) (orderings xs))"
    by (rule arg_cong[where f = sum_list], rule map_cong)
       (simp_all add: interleave_length orderings_elem_length)
  also have "\<dots> = length (orderings xs) * Suc (length xs)"
    by (simp add: sum_list_triv)
  finally show ?case using Cons by simp
qed

lemma marginal_sum:
  "distinct p \<Longrightarrow> (\<Sum>i\<in>set p. marginal v S p i) = v (S \<union> set p) - v S"
proof (induction p arbitrary: S)
  case Nil then show ?case by simp
next
  case (Cons x xs)
  have "(\<Sum>i\<in>set xs. marginal v S (x # xs) i) = (\<Sum>i\<in>set xs. marginal v (insert x S) xs i)"
    using Cons.prems by (intro sum.cong) auto
  then show ?case using Cons by simp
qed

lemma sum_list_swap:
  fixes g :: "'a \<Rightarrow> 'b \<Rightarrow> real"
  shows "sum_list (map (\<lambda>i. sum_list (map (\<lambda>p. g p i) ps)) js) =
         sum_list (map (\<lambda>p. sum_list (map (g p) js)) ps)"
  by (induction js) (simp_all add: sum_list_addf)

lemma sum_list_div_const:
  fixes f :: "'a \<Rightarrow> real"
  shows "sum_list (map (\<lambda>i. f i / c) xs) = sum_list (map f xs) / c"
  by (induction xs) (simp_all add: add_divide_distrib)

lemma marginal_walk_total:
  assumes "p \<in> set (orderings [0..<n])"
  shows "sum_list (map (marginal v {} p) [0..<n]) = v {0..<n} - v {}"
proof -
  have d: "distinct p" and s: "set p = {0..<n}"
    using assms orderings_distinct[of "[0..<n]" p] orderings_set[of p "[0..<n]"] by auto
  have "sum_list (map (marginal v {} p) [0..<n]) = (\<Sum>i\<in>{0..<n}. marginal v {} p i)"
    by (simp add: interv_sum_list_conv_sum_set_nat)
  also have "\<dots> = v ({} \<union> set p) - v {}"
    using marginal_sum[OF d, of v "{}"] s by simp
  finally show ?thesis using s by simp
qed

lemma shapley_efficiency:
  "sum_list (map (shapley_value v n) [0..<n]) = v {0..<n} - v {}"
proof -
  let ?ps = "orderings [0..<n]"
  have a: "sum_list (map (shapley_value v n) [0..<n]) =
        sum_list (map (\<lambda>i. sum_list (map (\<lambda>p. marginal v {} p i) ?ps)) [0..<n]) / fact n"
    unfolding shapley_value_def by (rule sum_list_div_const)
  have b: "sum_list (map (\<lambda>i. sum_list (map (\<lambda>p. marginal v {} p i) ?ps)) [0..<n])
        = sum_list (map (\<lambda>p. sum_list (map (marginal v {} p) [0..<n])) ?ps)"
    by (rule sum_list_swap)
  have c: "sum_list (map (\<lambda>p. sum_list (map (marginal v {} p) [0..<n])) ?ps)
        = real (length ?ps) * (v {0..<n} - v {})"
    by (rule sum_list_const) (rule marginal_walk_total)
  have d: "real (length ?ps) = fact n"
    by (simp only: orderings_length length_upt diff_zero of_nat_fact)
  have e: "(fact n :: real) \<noteq> 0" by simp
  show ?thesis unfolding a b c d using e by simp
qed


lemma first_failure_None:
  "first_failure rs = None \<Longrightarrow> r \<in> set rs \<Longrightarrow> \<exists>x. r = Inr x"
  by (induction rs rule: first_failure.induct) auto

lemma evaluate_empty: "evaluate orc {} budget = Inr (baseline orc)"
  by (simp add: evaluate_def)


lemma upt_0_3: "[0..<3] = [0, 1, 2]"
  by (simp add: upt_rec)

lemma exact_linear_3:
  "ExactShapleyEstimator linear_oracle 1 5 3 = Inr ([10, 10, 10], [0, 0, 0])"
  by (simp add: ExactShapleyEstimator_def upt_0_3 linear_oracle_def evaluate_def
      shapley_value_def coalition_value_def fact_numeral numeral_3_eq_3)

subsection \<open>Efficiency of the exact estimator\<close>

text \<open>
  Claim C1. Whenever the ExactShapleyEstimator returns a score vector, the sum of the vector
  over all nodes is the value of the full coalition minus the value of the empty coalition
  (the configured baseline). Scores are reals here, so the equation is exact; the vector has
  one entry per node and the variance vector is all zeros.
\<close>

theorem exact_shapley_efficiency:
  assumes "ExactShapleyEstimator orc budget threshold n = Inr (phi, var)"
  shows "evaluate orc {0..<n} budget = Inr (sum_list phi + baseline orc)
         \<and> evaluate orc {} budget = Inr (baseline orc)
         \<and> length phi = n \<and> var = replicate n 0"
proof -
  let ?v = "coalition_value orc budget"
  let ?rs = "map (\<lambda>S. evaluate orc (set S) budget) (subseqs [0..<n])"
  from assms have ff: "first_failure ?rs = None"
    and phi: "phi = map (shapley_value ?v n) [0..<n]" and var: "var = replicate n 0"
    by (auto simp: ExactShapleyEstimator_def split: if_splits option.splits)
  have "[0..<n] \<in> set (subseqs [0..<n])" by (rule subseqs_refl)
  then have "evaluate orc (set [0..<n]) budget \<in> set ?rs" unfolding set_map by (rule imageI)
  from first_failure_None[OF ff this]
  obtain x where "evaluate orc {0..<n} budget = Inr x" by auto
  then have full: "evaluate orc {0..<n} budget = Inr (?v {0..<n})"
    by (simp add: coalition_value_def)
  have emp: "?v {} = baseline orc" by (simp add: coalition_value_def evaluate_empty)
  have "sum_list phi = ?v {0..<n} - ?v {}" unfolding phi by (rule shapley_efficiency)
  then show ?thesis using full emp phi var by (simp add: evaluate_empty)
qed

theorem exact_shapley_efficiency_witness:
  "ExactShapleyEstimator linear_oracle 1 5 3 = Inr ([10, 10, 10], [0, 0, 0])
   \<and> evaluate linear_oracle {0..<3} 1 = Inr (sum_list [10, 10, 10] + baseline linear_oracle)
   \<and> evaluate linear_oracle {} 1 = Inr (baseline linear_oracle)"
  using exact_shapley_efficiency [OF exact_linear_3] exact_linear_3 by simp

subsection \<open>Rounding to a float\<close>

lemma double_round_at:
  assumes "2 powr of_int e \<le> \<bar>x\<bar>" and "\<bar>x\<bar> < 2 powr of_int (e + 1)" and "- 1022 \<le> e"
  shows "double_round x = np_round (x / 2 powr of_int (e - 52)) * 2 powr of_int (e - 52)"
proof -
  have pos: "0 < \<bar>x\<bar>" using assms(1) by (smt (verit) powr_gt_zero)
  have "\<lfloor>log 2 \<bar>x\<bar>\<rfloor> = e"
    using assms(1,2) pos by (subst floor_log_eq_powr_iff) simp_all
  moreover have "x \<noteq> 0" using pos by simp
  moreover have "max (e - 52) (- 1074) = e - 52" using assms(3) by simp
  ultimately show ?thesis by (simp add: double_round_def Let_def)
qed

subsection \<open>The independent-score estimator\<close>










text \<open>
  Why the amended claim speaks of real arithmetic: evaluated on floats, the normalisation of
  the raw scores 0.6 and 0.2 to the supplied score 0.9 sums to 0.8999999999999999, the float
  just below 0.9.
\<close>

lemma float_additive_inexact:
  "float_sum (float_additive [double_0_6, double_0_2] double_0_9) =
     2026619832316723 / 2251799813685248
   \<and> 2026619832316723 / 2251799813685248 < double_0_9"
proof -
  have s: "float_add double_0_6 double_0_2 = 3602879701896397 / 4503599627370496"
    unfolding float_add_def double_0_6_def double_0_2_def
    using double_round_at[of "- 1"
        "5404319552844595 / 9007199254740992 + 3602879701896397 / 18014398509481984"]
    by (simp add: np_round_def powr_minus)
  have q0: "float_div double_0_6 (3602879701896397 / 4503599627370496) =
      6755399441055743 / 9007199254740992"
    unfolding float_div_def double_0_6_def
    using double_round_at[of "- 1"
        "(5404319552844595 / 9007199254740992) / (3602879701896397 / 4503599627370496)"]
    by (simp add: np_round_def powr_minus)
  have q1: "float_div double_0_2 (3602879701896397 / 4503599627370496) = 1 / 4"
    unfolding float_div_def double_0_2_def
    using double_round_at[of "- 2"
        "(3602879701896397 / 18014398509481984) / (3602879701896397 / 4503599627370496)"]
    by (simp add: np_round_def powr_minus)
  have a0: "float_mul (6755399441055743 / 9007199254740992) double_0_9 =
      6079859496950169 / 9007199254740992"
    unfolding float_mul_def double_0_9_def
    using double_round_at[of "- 1"
        "(6755399441055743 / 9007199254740992) * (8106479329266893 / 9007199254740992)"]
    by (simp add: np_round_def powr_minus)
  have a1: "float_mul (1 / 4) double_0_9 = 8106479329266893 / 36028797018963968"
    unfolding float_mul_def double_0_9_def
    using double_round_at[of "- 3" "(1 / 4) * (8106479329266893 / 9007199254740992)"]
    by (simp add: np_round_def powr_minus)
  have t: "float_add (6079859496950169 / 9007199254740992)
      (8106479329266893 / 36028797018963968) = 2026619832316723 / 2251799813685248"
    unfolding float_add_def
    using double_round_at[of "- 1"
        "6079859496950169 / 9007199254740992 + 8106479329266893 / 36028797018963968"]
    by (simp add: np_round_def powr_minus)
  have "float_sum (float_additive [double_0_6, double_0_2] double_0_9) =
      2026619832316723 / 2251799813685248"
    by (simp only: float_additive_def float_sum.simps foldl.simps list.map s q0 q1 a0 a1 t)
  moreover have "2026619832316723 / 2251799813685248 < double_0_9"
    by (simp add: double_0_9_def)
  ultimately show ?thesis by blast
qed



subsection \<open>The method dispatch of \<^verbatim>\<open>run_scenario\<close>\<close>

text \<open>
  Claim C4. For the method "TMCS values" the driver calls \<^verbatim>\<open>truncated_MC\<close> with the current
  scenario and sv_accuracy = 0.01, alpha = 0.9, contrib_accuracy = 0.05, and takes the keys
  "sv" and "std_sv" of what it returns.
\<close>

theorem tmcs_call_defaults:
  "method_scores ext sc ''TMCS values'' prev =
     (case truncated_MC ext sc (1 / 100) (9 / 10) (5 / 100) of
        Inl e \<Rightarrow> Inl e
      | Inr res \<Rightarrow> Inr (Some [(''TMCS values'', sv res, std_sv res)]))"
  by (simp add: method_scores_def)

subsection \<open>One iteration of the loop over the methods\<close>

lemma double_round_5_2: "double_round (5 / 2) = 5 / 2"
  using double_round_at[of 1 "5 / 2"] by (simp add: np_round_def powr_minus)

lemma float_sub_5_2: "float_sub (real (k + 1) * 5 / 2) (real k * 5 / 2) = 5 / 2"
proof -
  have "real (k + 1) * 5 / 2 - real k * 5 / 2 = 5 / 2" by (simp add: field_simps)
  then show ?thesis unfolding float_sub_def by (simp only: double_round_5_2)
qed

lemma float_sub_2_6_0_1: "float_sub double_2_6 double_0_1 = 5 / 2"
  unfolding float_sub_def double_2_6_def double_0_1_def
  using double_round_at[of 1
      "5854679515581645 / 2251799813685248 - 3602879701896397 / 36028797018963968"]
  by (simp add: np_round_def powr_minus)

lemma demo_scenario_no_records: "contributivity_list demo_scenario = []"
  by (simp add: demo_scenario_def)

lemma demo_scenario_nodes: "node_list demo_scenario = [0, 1]"
  by (simp add: demo_scenario_def)

lemma demo_timer: "timer demo_ext k = real k * 5 / 2"
  by (simp add: demo_ext_def)

lemma tie_timer: "timer tie_ext k = (if k = 0 then double_0_1 else double_2_6)"
  by (simp add: tie_ext_def)

lemma record_scores_result:
  "record_scores t sc d = Inr sc' \<Longrightarrow>
     sc' = sc\<lparr>contributivity_list := contributivity_list sc @ map (record_of t) d\<rparr>"
proof (induction d arbitrary: sc)
  case Nil
  then show ?case by simp
next
  case (Cons entry d)
  obtain nm s v where entry: "entry = (nm, s, v)" by (cases entry) auto
  from Cons.prems obtain c where
    c: "Contributivity (length (node_list sc)) nm s v t = Inr c"
    and rest: "record_scores t (append_contributivity sc c) d = Inr sc'"
    unfolding entry by (auto split: sum.splits)
  from c have c_eq: "c = record_of t entry"
    by (auto simp: Contributivity_def record_of_def entry split: if_splits)
  from Cons.IH[OF rest] show ?case
    by (simp add: append_contributivity_def c_eq)
qed

lemma method_step_result:
  assumes "method_step ext k sd sc method = Inr (sd', sc')"
  shows "\<exists>d. sd' = Some d \<and> method_scores ext sc method sd = Inr (Some d)
           \<and> sc' = sc\<lparr>contributivity_list := contributivity_list sc @
                    map (record_of (np_round (float_sub (timer ext (k + 1)) (timer ext k)))) d\<rparr>"
  using assms
  by (auto simp: method_step_def Let_def split: sum.splits option.splits
      dest: record_scores_result)


lemma new_records:
  "sc' = sc\<lparr>contributivity_list := contributivity_list sc @ new\<rparr> \<Longrightarrow>
   drop (length (contributivity_list sc)) (contributivity_list sc') = new
   \<and> take (length (contributivity_list sc)) (contributivity_list sc') = contributivity_list sc"
  by simp

text \<open>
  Claim C8. When the iteration for "Independant scores" completes, it has appended the raw
  record and then the additive record, and the variance vector of each is all zeros, with
  as many entries as the score vector of the same record.
\<close>

theorem independent_variances_zero:
  assumes "method_step ext k sd sc ''Independant scores'' = Inr (sd', sc')"
  shows "map name (drop (length (contributivity_list sc)) (contributivity_list sc')) =
           [''Independant scores raw'', ''Independant scores additive'']
         \<and> (\<forall>c \<in> set (drop (length (contributivity_list sc)) (contributivity_list sc')).
               scores_var c = replicate (length (contributivity_scores c)) 0)"
proof -
  from method_step_result[OF assms] obtain d where
    d: "method_scores ext sc ''Independant scores'' sd = Inr (Some d)"
    and sc': "sc' = sc\<lparr>contributivity_list := contributivity_list sc @
                    map (record_of (np_round (float_sub (timer ext (k + 1)) (timer ext k)))) d\<rparr>"
    by blast
  from d obtain raw additive_scores where
    d_eq: "d = [(''Independant scores raw'', raw, replicate (length raw) 0),
                  (''Independant scores additive'', additive_scores, replicate (length additive_scores) 0)]"
    by (auto simp: method_scores_def split: sum.splits)
  show ?thesis unfolding sc' d_eq by (simp add: record_of_def)
qed

lemma demo_independent_step:
  "method_step demo_ext 2 None demo_scenario ''Independant scores'' =
     Inr (Some [(''Independant scores raw'', [3 / 5, 1 / 5], [0, 0]),
                (''Independant scores additive'', [27 / 40, 9 / 40], [0, 0])],
          demo_scenario\<lparr>contributivity_list :=
            [\<lparr>name = ''Independant scores raw'', contributivity_scores = [3 / 5, 1 / 5],
              scores_var = [0, 0], computation_time = 2\<rparr>,
             \<lparr>name = ''Independant scores additive'', contributivity_scores = [27 / 40, 9 / 40],
              scores_var = [0, 0], computation_time = 2\<rparr>]\<rparr>)"
  by (simp add: method_step_def method_scores_def demo_ext_def demo_scenario_def
      Contributivity_def append_contributivity_def np_round_def numeral_2_eq_2
      float_sub_def double_round_5_2)

theorem independent_variances_zero_witness:
  "map name (drop (length (contributivity_list demo_scenario))
      (contributivity_list (snd (projr (method_step demo_ext 2 None demo_scenario
         ''Independant scores''))))) =
     [''Independant scores raw'', ''Independant scores additive'']
   \<and> map scores_var (contributivity_list (snd (projr (method_step demo_ext 2 None demo_scenario
         ''Independant scores'')))) = [0, 0] # [0, 0] # []"
  using independent_variances_zero [OF demo_independent_step]
  by (simp add: demo_independent_step demo_scenario_no_records)

lemma np_round_near: "\<bar>np_round x - x\<bar> \<le> 1 / 2"
  unfolding np_round_def Let_def by (auto simp: abs_if) linarith+

lemma np_round_int: "np_round x \<in> \<int>"
  unfolding np_round_def Let_def by auto

lemma tie_step:
  "method_step tie_ext 0 None demo_scenario ''Shapley values'' =
     Inr (Some [(''Shapley values'', [1 / 2, 2 / 5], [0, 0])],
          demo_scenario\<lparr>contributivity_list :=
            [\<lparr>name = ''Shapley values'', contributivity_scores = [1 / 2, 2 / 5],
              scores_var = [0, 0], computation_time = 2\<rparr>]\<rparr>)"
  by (simp add: method_step_def method_scores_def tie_ext_def demo_ext_def
      demo_scenario_no_records float_sub_2_6_0_1 np_round_def Contributivity_def
      append_contributivity_def demo_scenario_nodes)

lemma demo_elapsed: "float_sub (timer demo_ext 3) (timer demo_ext 2) = 5 / 2"
  using float_sub_5_2[of 2] by (simp add: demo_timer)

lemma tie_elapsed: "float_sub (timer tie_ext (Suc 0)) (timer tie_ext 0) = 5 / 2"
  by (simp add: tie_timer float_sub_2_6_0_1)

lemma tie_exact: "5 / 2 < timer tie_ext (Suc 0) - timer tie_ext 0"
  by (simp add: tie_timer double_0_1_def double_2_6_def)

text \<open>
  Claim C9. Every record appended by the iteration of one method carries the same elapsed
  time: the float difference of the two clock readings taken around the method's
  computation, rounded by \<^verbatim>\<open>np.round\<close>, which is an integer at distance at most one half
  from that float difference. This covers the two records of "Independant scores".
\<close>

theorem elapsed_time_rounded:
  assumes "method_step ext k sd sc method = Inr (sd', sc')"
  shows "(\<forall>c \<in> set (drop (length (contributivity_list sc)) (contributivity_list sc')).
            computation_time c = np_round (float_sub (timer ext (k + 1)) (timer ext k)))
         \<and> np_round (float_sub (timer ext (k + 1)) (timer ext k)) \<in> \<int>
         \<and> \<bar>np_round (float_sub (timer ext (k + 1)) (timer ext k))
              - float_sub (timer ext (k + 1)) (timer ext k)\<bar> \<le> 1 / 2"
proof -
  from method_step_result[OF assms] obtain d where
    sc': "sc' = sc\<lparr>contributivity_list := contributivity_list sc @
                    map (record_of (np_round (float_sub (timer ext (k + 1)) (timer ext k)))) d\<rparr>"
    by blast
  show ?thesis unfolding sc'
    using np_round_near[of "float_sub (timer ext (k + 1)) (timer ext k)"]
      np_round_int[of "float_sub (timer ext (k + 1)) (timer ext k)"]
    by (simp add: record_of_def)
qed

theorem elapsed_time_rounded_witness:
  "map computation_time (contributivity_list (snd (projr (method_step demo_ext 2 None
      demo_scenario ''Independant scores'')))) = [2, 2]
   \<and> float_sub (timer demo_ext 3) (timer demo_ext 2) = 5 / 2
   \<and> map computation_time (contributivity_list (snd (projr (method_step tie_ext 0 None
      demo_scenario ''Shapley values'')))) = [2]
   \<and> float_sub (timer tie_ext 1) (timer tie_ext 0) = 5 / 2
   \<and> 5 / 2 < timer tie_ext 1 - timer tie_ext 0"
  using elapsed_time_rounded [OF demo_independent_step] elapsed_time_rounded [OF tie_step]
  using tie_exact
  by (simp add: demo_independent_step tie_step demo_scenario_no_records demo_elapsed
      tie_elapsed)

subsection \<open>The records of a whole run\<close>

lemma scores_sv:
  "method_scores ext sc ''Shapley values'' sd = Inr (Some d) \<Longrightarrow>
     map fst d = score_names ''Shapley values''"
  unfolding method_scores_def score_names_def by (simp split: sum.splits prod.splits) auto

lemma scores_independent:
  "method_scores ext sc ''Independant scores'' sd = Inr (Some d) \<Longrightarrow>
     map fst d = score_names ''Independant scores''"
  unfolding method_scores_def score_names_def by (simp split: sum.splits prod.splits) auto

lemma scores_tmcs:
  "method_scores ext sc ''TMCS values'' sd = Inr (Some d) \<Longrightarrow>
     map fst d = score_names ''TMCS values''"
  unfolding method_scores_def score_names_def by (simp split: sum.splits prod.splits) auto

lemma known_method_keys:
  assumes "known_method method" and "method_scores ext sc method sd = Inr (Some d)"
  shows "map fst d = score_names method"
proof -
  from assms(1) consider "method = ''Shapley values''" | "method = ''Independant scores''"
    | "method = ''TMCS values''" unfolding known_method_def by blast
  then show ?thesis
  proof cases
    case 1 then show ?thesis using assms(2) scores_sv by blast
  next
    case 2 then show ?thesis using assms(2) scores_independent by blast
  next
    case 3 then show ?thesis using assms(2) scores_tmcs by blast
  qed
qed

lemma method_step_names:
  assumes "method_step ext k sd sc method = Inr (sd', sc')" and "known_method method"
  shows "\<exists>new. contributivity_list sc' = contributivity_list sc @ new
           \<and> map name new = score_names method"
proof -
  from method_step_result[OF assms(1)] obtain d where
    d: "method_scores ext sc method sd = Inr (Some d)"
    and sc': "sc' = sc\<lparr>contributivity_list := contributivity_list sc @
                    map (record_of (np_round (float_sub (timer ext (k + 1)) (timer ext k)))) d\<rparr>"
    by blast
  have "map name (map (record_of (np_round (float_sub (timer ext (k + 1)) (timer ext k)))) d) = map fst d"
    by (simp add: record_of_def comp_def)
  then show ?thesis using known_method_keys[OF assms(2) d] unfolding sc' by simp
qed

lemma run_methods_names:
  assumes "run_methods ext k sd sc ms = Inr (sc', k')"
    and "\<forall>method \<in> set ms. known_method method"
  shows "\<exists>new. contributivity_list sc' = contributivity_list sc @ new
           \<and> map name new = concat (map score_names ms)"
  using assms
proof (induction ms arbitrary: k sd sc)
  case Nil
  then show ?case by simp
next
  case (Cons m ms)
  from Cons.prems(1) obtain sd1 sc1 where
    step: "method_step ext k sd sc m = Inr (sd1, sc1)"
    and rest: "run_methods ext (k + 2) sd1 sc1 ms = Inr (sc', k')"
    by (auto split: sum.splits)
  from Cons.prems(2) have km: "known_method m" and kms: "\<forall>method \<in> set ms. known_method method"
    by simp_all
  from method_step_names[OF step km] obtain new1 where
    l1: "contributivity_list sc1 = contributivity_list sc @ new1"
    and n1: "map name new1 = score_names m" by blast
  from Cons.IH[OF rest kms] obtain new2 where
    l2: "contributivity_list sc' = contributivity_list sc1 @ new2"
    and n2: "map name new2 = concat (map score_names ms)" by blast
  have "contributivity_list sc' = contributivity_list sc @ (new1 @ new2)"
    unfolding l2 l1 by simp
  moreover have "map name (new1 @ new2) = concat (map score_names (m # ms))"
    using n1 n2 by simp
  ultimately show ?case by blast
qed

text \<open>
  Claim C6, amended. When the loop over the methods completes and every method is one of
  the three names the source knows, the records appended are, in the order of the methods,
  one named "Shapley values" for "Shapley values", the two named "Independant scores raw"
  and "Independant scores additive_scores" for "Independant scores", and one named "TMCS values"
  for "TMCS values"; the records the scenario held before are still there, unchanged, in
  front of them.
\<close>

theorem records_per_method:
  assumes "run_methods ext k sd sc ms = Inr (sc', k')"
    and "\<forall>method \<in> set ms. known_method method"
  shows "take (length (contributivity_list sc)) (contributivity_list sc') = contributivity_list sc
         \<and> map name (drop (length (contributivity_list sc)) (contributivity_list sc')) =
             concat (map score_names ms)"
proof -
  from run_methods_names[OF assms] obtain new where
    l: "contributivity_list sc' = contributivity_list sc @ new"
    and n: "map name new = concat (map score_names ms)" by blast
  show ?thesis unfolding l using n by simp
qed

lemma demo_run_methods:
  "run_methods demo_ext 0 None demo_scenario (methods demo_scenario) =
     Inr (demo_scenario\<lparr>contributivity_list :=
            [\<lparr>name = ''Shapley values'', contributivity_scores = [1 / 2, 2 / 5],
              scores_var = [0, 0], computation_time = 2\<rparr>,
             \<lparr>name = ''Independant scores raw'', contributivity_scores = [3 / 5, 1 / 5],
              scores_var = [0, 0], computation_time = 2\<rparr>,
             \<lparr>name = ''Independant scores additive'', contributivity_scores = [27 / 40, 9 / 40],
              scores_var = [0, 0], computation_time = 2\<rparr>,
             \<lparr>name = ''TMCS values'', contributivity_scores = [1 / 100, 9 / 10],
              scores_var = [1 / 20, 0], computation_time = 2\<rparr>]\<rparr>, 6)"
  by (simp add: method_step_def method_scores_def demo_ext_def demo_scenario_def
      Contributivity_def append_contributivity_def np_round_def numeral_2_eq_2
      float_sub_def double_round_5_2)


lemma demo_methods_known: "\<forall>method \<in> set (methods demo_scenario). known_method method"
  by (simp add: demo_scenario_def known_method_def)

theorem records_per_method_witness:
  "known_method ''Shapley values'' \<and> known_method ''Independant scores''
   \<and> known_method ''TMCS values''
   \<and> methods demo_scenario = [''Shapley values'', ''Independant scores'', ''TMCS values'']
   \<and> map name (contributivity_list (fst (projr
        (run_methods demo_ext 0 None demo_scenario (methods demo_scenario))))) =
      [''Shapley values'', ''Independant scores raw'', ''Independant scores additive'',
       ''TMCS values'']"
  using records_per_method [OF demo_run_methods demo_methods_known]
  by (simp add: demo_run_methods) (simp add: demo_scenario_def known_method_def)

text \<open>
  Claim C6, as stated: exactly one record per executed method. A scenario whose only method
  is "Independant scores" ends with two records.
\<close>

theorem one_record_per_method_counterexample:
  "(case run_scenario demo_ext 0 (demo_scenario\<lparr>methods := [''Independant scores'']\<rparr>) of
      Inl e \<Rightarrow> False
    | Inr (sc', k') \<Rightarrow>
        map name (contributivity_list sc') =
          [''Independant scores raw'', ''Independant scores additive''])"
  by (simp add: run_scenario_def method_step_def method_scores_def demo_ext_def demo_scenario_def
      Contributivity_def append_contributivity_def np_round_def numeral_2_eq_2
      float_sub_def double_round_5_2)

subsection \<open>The header of the results file\<close>

lemma headers_write_results:
  "write_results f df \<noteq> []
   \<and> headers (write_results f df) = (if f = [] then 1 else headers f)"
  by (simp add: write_results_def to_csv_def headers_def comp_def)

lemma scenario_loop_headers:
  "scenario_loop ext path i k f ps = (r, f', k') \<Longrightarrow>
     (f \<noteq> [] \<longrightarrow> f' \<noteq> [] \<and> headers f' = headers f)
     \<and> (f = [] \<longrightarrow> headers f' = (if f' = [] then 0 else 1))"
proof (induction ext path i k f ps arbitrary: r f' k' rule: scenario_loop.induct)
  case (1 ext path i k f)
  then show ?case by (auto simp: headers_def)
next
  case (2 ext path i k f scenario_id scenario_params rest)
  show ?case
  proof (cases "\<exists>a sc d0 sc1 k1 df. scenario_params ''amounts_per_node'' = Some a
        \<and> Scenario ext scenario_params path = Inr sc \<and> to_dataframe ext sc = Inr d0
        \<and> run_scenario ext k sc = Inr (sc1, k1) \<and> to_dataframe ext sc1 = Inr df")
    case False
    then have "f' = f" using "2.prems"
      by (auto split: option.splits sum.splits prod.splits)
    then show ?thesis by (auto simp: headers_def)
  next
    case True
    then obtain a sc d0 sc1 k1 df where h:
      "scenario_params ''amounts_per_node'' = Some a"
      "Scenario ext scenario_params path = Inr sc" "to_dataframe ext sc = Inr d0"
      "run_scenario ext k sc = Inr (sc1, k1)" "to_dataframe ext sc1 = Inr df" by blast
    let ?df = "assign_column (assign_column df ''random_state'' (Num (int i)))
                 ''scenario_id'' (Num (int scenario_id))"
    let ?f1 = "write_results f ?df"
    from "2.prems" h have rest: "scenario_loop ext path i k1 ?f1 rest = (r, f', k')"
      by (simp add: Let_def)
    have ih: "(?f1 \<noteq> [] \<longrightarrow> f' \<noteq> [] \<and> headers f' = headers ?f1)
              \<and> (?f1 = [] \<longrightarrow> headers f' = (if f' = [] then 0 else 1))"
      using "2.IH"[OF h(1) h(2) h(3) h(4) _ h(5) _ rest] by simp
    show ?thesis using ih headers_write_results[of f ?df] by auto
  qed
qed


lemma repeat_loop_headers:
  "repeat_loop ext cfg k f is = (r, f', k') \<Longrightarrow>
     (f \<noteq> [] \<longrightarrow> f' \<noteq> [] \<and> headers f' = headers f)
     \<and> (f = [] \<longrightarrow> headers f' = (if f' = [] then 0 else 1))"
proof (induction "is" arbitrary: k f)
  case Nil
  then show ?case by (auto simp: headers_def)
next
  case (Cons i "is")
  obtain r1 f1 k1 where sl: "scenario_loop ext (experiment_path cfg) i k f
      (enumerate 0 (scenario_params_list cfg)) = (r1, f1, k1)"
    by (metis prod_cases3)
  note a = scenario_loop_headers[OF sl]
  show ?case
  proof (cases r1)
    case (Some e)
    with Cons.prems sl have "f' = f1" by simp
    with a show ?thesis by simp
  next
    case None
    with Cons.prems sl have "repeat_loop ext cfg k1 f1 is = (r, f', k')" by simp
    from Cons.IH[OF this] a show ?thesis by auto
  qed
qed

text \<open>
  Claim C10. An append to \<^verbatim>\<open>results.csv\<close> writes the header line exactly when the file is
  empty at that moment. Hence, whatever the externals do and however \<^verbatim>\<open>main\<close> ends, a file
  that was empty before the run holds one header if anything was written and none otherwise,
  and a file that was not empty holds as many headers as before.
\<close>

theorem csv_header_once:
  "write_results f df = f @ (if f = [] then [Header (columns df)] else []) @ map Row (rows df)
   \<and> headers (fst (snd (main ext cfg f0))) =
       (if f0 = [] then (if fst (snd (main ext cfg f0)) = [] then 0 else 1) else headers f0)"
proof -
  obtain r f' k' where m: "main ext cfg f0 = (r, f', k')" by (metis prod_cases3)
  then have "repeat_loop ext cfg 0 f0 [0..<nat (n_repeats cfg)] = (r, f', k')"
    by (simp add: main_def)
  from repeat_loop_headers[OF this]
  have h: "headers f' = (if f0 = [] then (if f' = [] then 0 else 1) else headers f0)"
    by auto
  have fm: "fst (snd (main ext cfg f0)) = f'" by (simp add: m)
  show ?thesis unfolding fm using h by (simp add: write_results_def to_csv_def)
qed

lemma demo_main:
  "main demo_ext demo_config [] =
     (None,
      [Header [''contributivity_method'', ''random_state'', ''scenario_id''],
       Row [Txt ''Shapley values'', Num 0, Num 0],
       Row [Txt ''Independant scores raw'', Num 0, Num 0],
       Row [Txt ''Independant scores additive'', Num 0, Num 0],
       Row [Txt ''TMCS values'', Num 0, Num 0],
       Row [Txt ''Shapley values'', Num 1, Num 0],
       Row [Txt ''Independant scores raw'', Num 1, Num 0],
       Row [Txt ''Independant scores additive'', Num 1, Num 0],
       Row [Txt ''TMCS values'', Num 1, Num 0]], 12)"
  by (simp add: main_def demo_config_def demo_params_def upt_rec enumerate_eq_zip
      run_scenario_def method_step_def method_scores_def demo_ext_def demo_scenario_def
      Contributivity_def append_contributivity_def np_round_def numeral_2_eq_2
      float_sub_def double_round_5_2
      assign_column_def write_results_def to_csv_def)

theorem csv_header_once_witness:
  "headers (fst (snd (main demo_ext demo_config []))) = 1
   \<and> length (fst (snd (main demo_ext demo_config []))) = 9"
  using csv_header_once [of "[]" "\<lparr>columns = [], rows = []\<rparr>" demo_ext demo_config "[]"]
  by (simp add: demo_main)

subsection \<open>Exceptions in the driver\<close>







end
